theory Spec2Isabelle
  imports Main
begin

section \<open>Constants of \<^verbatim>\<open>dock_sizer.py\<close>\<close>

definition DragBarSize :: int where "DragBarSize = 14"
definition TabHeight :: int where "TabHeight = 26"
definition TabActive :: int where "TabActive = 1"
definition NBMarginLeft :: int where "NBMarginLeft = 7"
definition NBMarginRight :: int where "NBMarginRight = 9"
definition NBMarginTop :: int where "NBMarginTop = 3"
definition NBMarginBottom :: int where "NBMarginBottom = 9"
definition NBPadding :: int where "NBPadding = 4"
definition SplitterSizeH :: int where "SplitterSizeH = 9"
definition SplitterSizeV :: int where "SplitterSizeV = 12"

text \<open>The drop kinds \<^verbatim>\<open>DOCK_TOP\<close> ... \<^verbatim>\<open>DOCK_EXPORT\<close>.\<close>

datatype dock_kind =
  DOCK_TOP | DOCK_BOTTOM | DOCK_LEFT | DOCK_RIGHT | DOCK_TAB | DOCK_TABADD
  | DOCK_BAR | DOCK_NONE | DOCK_SPLITTER | DOCK_EXPORT

text \<open>\<^verbatim>\<open>DockStyle = Enum( 'horizontal', 'vertical', 'tab', 'fixed' )\<close>.\<close>

datatype dock_style = horizontal | vertical | tab | fixed

text \<open>The exceptions the modelled code can raise.\<close>

datatype error = TypeError | ValueError | IndexError | AttributeError | RecursionError

section \<open>Data model\<close>

text \<open>
  A \<^verbatim>\<open>Bounds\<close> value is the tuple \<^verbatim>\<open>( x, y, dx, dy )\<close> of Python integers.
\<close>

type_synonym bounds = "int \<times> int \<times> int \<times> int"

text \<open>
  The traits of \<^verbatim>\<open>DockItem\<close> that the layout and hit-testing code reads or writes.
  \<open>ident\<close> stands for the identity of the Python object and \<open>parent\<close> for the
  identity of the object its \<^verbatim>\<open>parent\<close> trait refers to. \<open>tab_width\<close> is the
  value of the \<^verbatim>\<open>tab_width\<close> property, which the source computes from the font
  metrics of a device context. \<open>is_tab\<close> and \<open>tab_state\<close> are the private
  attributes \<^verbatim>\<open>_is_tab\<close> and \<^verbatim>\<open>_state\<close>.
\<close>

record dock_item =
  ident :: nat
  parent :: "nat option"
  bounds :: bounds
  width :: int
  height :: int
  drag_bounds :: bounds
  tab_width :: int
  is_tab :: bool
  tab_state :: "int option"

text \<open>
  \<^verbatim>\<open>DockControl\<close>. \<open>has_control\<close> is \<^verbatim>\<open>self.control is not None\<close>,
  \<open>min_size\<close> is what the wrapped window answers to \<^verbatim>\<open>GetEffectiveMinSize()\<close>,
  \<open>shown\<close> is the state that \<^verbatim>\<open>self.control.Show( visible )\<close> sets, and
  \<open>tab_name_cache\<close> is the private attribute \<^verbatim>\<open>_tab_name\<close>.
\<close>

record dock_control = dock_item +
  name :: string
  tab_name_cache :: "string option"
  has_control :: bool
  min_size :: "int \<times> int"
  style :: dock_style
  visible :: bool
  locked :: bool
  resizable :: bool
  shown :: bool

text \<open>
  The private attributes that \<^verbatim>\<open>DockGroup\<close> and its subclasses keep:
  \<^verbatim>\<open>_visible\<close> (unset, \<^verbatim>\<open>True\<close> or \<^verbatim>\<open>False\<close>) and the cache
  \<^verbatim>\<open>_resizable\<close> of the \<^verbatim>\<open>resizable\<close> property.
\<close>

record dock_group = dock_item +
  visible_flag :: "bool option"
  resizable_cache :: "bool option"

record dock_region = dock_group +
  active :: int
  tab_scroll_index :: int
  left_tab :: int
  max_tab :: int
  is_notebook_cache :: "bool option"
  tab_clip_bounds :: "bounds option"

record dock_splitter =
  sp_bounds :: bounds
  sp_style :: dock_style
  sp_index :: nat
  sp_last_bounds :: "bounds option"

record dock_section = dock_group +
  is_row :: bool
  splitters :: "dock_splitter list"
  has_dock_window :: bool

text \<open>
  The tree of dock items. The \<^verbatim>\<open>contents\<close> list of a group is the second
  argument of its constructor.
\<close>

datatype item =
  Control dock_control
  | Region dock_region "item list"
  | Section dock_section "item list"

section \<open>\<^verbatim>\<open>DockItem\<close>: hit test and tab label\<close>

text \<open>
  \<^verbatim>\<open>DockItem.is_at( x, y, bounds )\<close> with the rectangle passed explicitly; the
  default \<^verbatim>\<open>bounds = None\<close> of the source substitutes \<^verbatim>\<open>self.bounds\<close>
  for it.
\<close>

definition is_at :: "int \<Rightarrow> int \<Rightarrow> bounds \<Rightarrow> bool" where
  "is_at x y b =
     (case b of (bx, by, bdx, bdy) \<Rightarrow>
        (bx \<le> x \<and> x < bx + bdx) \<and> (by \<le> y \<and> y < by + bdy))"


text \<open>
  Assigning the \<^verbatim>\<open>name\<close> trait: the traits machinery calls
  \<^verbatim>\<open>_name_changed\<close>, which clears \<^verbatim>\<open>_tab_name\<close>, when the value changes.
\<close>

definition set_name :: "string \<Rightarrow> dock_control \<Rightarrow> dock_control" where
  "set_name n c = (if n = name c then c else c\<lparr>name := n, tab_name_cache := None\<rparr>)"

section \<open>Properties of the items of a tree\<close>

text \<open>The traits every item has, read off a node of the tree.\<close>

fun item_width :: "item \<Rightarrow> int" where
  "item_width (Control c) = width c"
| "item_width (Region r cs) = width r"
| "item_width (Section s cs) = width s"

fun item_height :: "item \<Rightarrow> int" where
  "item_height (Control c) = height c"
| "item_height (Region r cs) = height r"
| "item_height (Section s cs) = height s"

fun item_bounds :: "item \<Rightarrow> bounds" where
  "item_bounds (Control c) = bounds c"
| "item_bounds (Region r cs) = bounds r"
| "item_bounds (Section s cs) = bounds s"

fun item_drag_bounds :: "item \<Rightarrow> bounds" where
  "item_drag_bounds (Control c) = drag_bounds c"
| "item_drag_bounds (Region r cs) = drag_bounds r"
| "item_drag_bounds (Section s cs) = drag_bounds s"

fun item_tab_width :: "item \<Rightarrow> int" where
  "item_tab_width (Control c) = tab_width c"
| "item_tab_width (Region r cs) = tab_width r"
| "item_tab_width (Section s cs) = tab_width s"

fun item_tab_state :: "item \<Rightarrow> int option" where
  "item_tab_state (Control c) = tab_state c"
| "item_tab_state (Region r cs) = tab_state r"
| "item_tab_state (Section s cs) = tab_state s"

fun item_contents :: "item \<Rightarrow> item list" where
  "item_contents (Control c) = []"
| "item_contents (Region r cs) = cs"
| "item_contents (Section s cs) = cs"

text \<open>
  The \<^verbatim>\<open>visible\<close> trait of a control, and the \<^verbatim>\<open>visible\<close> property of a
  group (\<^verbatim>\<open>DockGroup._get_visible\<close>): some item of the contents is visible.
\<close>

fun item_visible :: "item \<Rightarrow> bool" where
  "item_visible (Control c) = visible c"
| "item_visible (Region r cs) = list_ex item_visible cs"
| "item_visible (Section s cs) = list_ex item_visible cs"

text \<open>\<^verbatim>\<open>DockGroup._get_visible_contents\<close>.\<close>

definition visible_contents :: "item list \<Rightarrow> item list" where
  "visible_contents cs = filter item_visible cs"

text \<open>
  \<^verbatim>\<open>get_controls( visible_only )\<close> of \<^verbatim>\<open>DockControl\<close> and of
  \<^verbatim>\<open>DockGroup\<close>; a group walks its visible contents when \<open>visible_only\<close> is
  set and all of its contents otherwise.
\<close>

fun get_controls :: "bool \<Rightarrow> item \<Rightarrow> dock_control list" where
  "get_controls visible_only (Control c) =
     (if visible_only \<and> \<not> visible c then [] else [c])"
| "get_controls visible_only (Region r cs) =
     concat (map (get_controls visible_only)
                 (filter (\<lambda>i. \<not> visible_only \<or> item_visible i) cs))"
| "get_controls visible_only (Section s cs) =
     concat (map (get_controls visible_only)
                 (filter (\<lambda>i. \<not> visible_only \<or> item_visible i) cs))"

text \<open>
  The \<^verbatim>\<open>resizable\<close> property of a group (\<^verbatim>\<open>DockGroup._get_resizable\<close>), on
  the fields and the contents of the group: some control that \<^verbatim>\<open>get_controls()\<close>
  returns is resizable. The property fills the cache \<^verbatim>\<open>_resizable\<close> when it is
  empty; the result is the value and the fields with the cache filled.
\<close>

definition get_resizable ::
  "'a dock_group_scheme \<Rightarrow> item list \<Rightarrow> bool \<times> 'a dock_group_scheme" where
  "get_resizable g cs =
     (case resizable_cache g of
        Some b \<Rightarrow> (b, g)
      | None \<Rightarrow>
          (let b = list_ex resizable (concat (map (get_controls True) (visible_contents cs)))
           in (b, g\<lparr>resizable_cache := Some b\<rparr>)))"

text \<open>
  The \<^verbatim>\<open>style\<close> trait of a control and the \<^verbatim>\<open>style\<close> property of a group
  (\<^verbatim>\<open>DockGroup._get_style\<close>): the style of the first item, or
  \<^verbatim>\<open>'horizontal'\<close> for an empty group.
\<close>

fun item_style :: "item \<Rightarrow> dock_style" where
  "item_style (Control c) = style c"
| "item_style (Region r []) = horizontal"
| "item_style (Region r (c # cs)) = item_style c"
| "item_style (Section s []) = horizontal"
| "item_style (Section s (c # cs)) = item_style c"

text \<open>
  The \<^verbatim>\<open>locked\<close> trait of a control and the \<^verbatim>\<open>locked\<close> property of a group
  (\<^verbatim>\<open>DockGroup._get_locked\<close>), which indexes \<^verbatim>\<open>self.contents[0]\<close> without
  a test.
\<close>

fun item_locked :: "item \<Rightarrow> error + bool" where
  "item_locked (Control c) = Inr (locked c)"
| "item_locked (Region r []) = Inl IndexError"
| "item_locked (Region r (c # cs)) = item_locked c"
| "item_locked (Section s []) = Inl IndexError"
| "item_locked (Section s (c # cs)) = item_locked c"

text \<open>
  \<^verbatim>\<open>DockRegion._get_is_notebook\<close>, on the fields and the contents of a region:
  the value of the property and the region with the cache \<^verbatim>\<open>_is_notebook\<close>
  filled.
\<close>

definition get_is_notebook :: "dock_region \<Rightarrow> item list \<Rightarrow> bool \<times> dock_region" where
  "get_is_notebook r cs =
     (case is_notebook_cache r of
        Some b \<Rightarrow> (b, r)
      | None \<Rightarrow>
          (let contents = visible_contents cs;
               n = length contents;
               b = (if n = 1 then item_style (hd contents) = tab else n > 1)
           in (b, r\<lparr>is_notebook_cache := Some b\<rparr>)))"

text \<open>\<^verbatim>\<open>DockItem.set_drag_bounds\<close>.\<close>

definition clip_drag_bounds :: "bounds \<Rightarrow> int \<Rightarrow> int \<Rightarrow> int \<Rightarrow> int \<Rightarrow> bounds" where
  "clip_drag_bounds b x y dx dy =
     (case b of (bx, by, bdx, bdy) \<Rightarrow>
        (x, y, min (x + dx) (bx + bdx) - x, min (y + dy) (by + bdy) - y))"

fun set_drag_bounds :: "int \<Rightarrow> int \<Rightarrow> int \<Rightarrow> int \<Rightarrow> item \<Rightarrow> item" where
  "set_drag_bounds x y dx dy (Control c) =
     Control (c\<lparr>drag_bounds := clip_drag_bounds (bounds c) x y dx dy\<rparr>)"
| "set_drag_bounds x y dx dy (Region r cs) =
     Region (r\<lparr>drag_bounds := clip_drag_bounds (bounds r) x y dx dy\<rparr>) cs"
| "set_drag_bounds x y dx dy (Section s cs) =
     Section (s\<lparr>drag_bounds := clip_drag_bounds (bounds s) x y dx dy\<rparr>) cs"

section \<open>Visibility\<close>

text \<open>
  \<^verbatim>\<open>set_visibility( visible )\<close> of \<^verbatim>\<open>DockControl\<close>, \<^verbatim>\<open>DockRegion\<close> and
  \<^verbatim>\<open>DockSection\<close>. \<open>set_visibility_tabs visible active i cs\<close> is the loop of
  \<^verbatim>\<open>DockRegion.set_visibility\<close> over the items from index \<open>i\<close> on.
\<close>

fun set_visibility :: "bool \<Rightarrow> item \<Rightarrow> item"
and set_visibility_tabs :: "bool \<Rightarrow> int \<Rightarrow> int \<Rightarrow> item list \<Rightarrow> item list" where
  "set_visibility v (Control c) =
     (if has_control c then Control (c\<lparr>shown := v\<rparr>) else Control c)"
| "set_visibility v (Region r cs) =
     Region (r\<lparr>visible_flag := Some v\<rparr>) (set_visibility_tabs v (active r) 0 cs)"
| "set_visibility v (Section s cs) =
     Section (s\<lparr>visible_flag := Some v\<rparr>) (map (set_visibility v) cs)"
| "set_visibility_tabs v a i [] = []"
| "set_visibility_tabs v a i (c # cs) =
     set_visibility (v \<and> i = a) c # set_visibility_tabs v a (i + 1) cs"

text \<open>\<^verbatim>\<open>DockRegion._set_visibility\<close> and \<^verbatim>\<open>DockSection._set_visibility\<close>.\<close>

definition region_set_visibility :: "dock_region \<Rightarrow> item list \<Rightarrow> item list" where
  "region_set_visibility r cs = set_visibility_tabs True (active r) 0 cs"

definition section_set_visibility :: "item list \<Rightarrow> item list" where
  "section_set_visibility cs = map (\<lambda>c. set_visibility (item_visible c) c) cs"

section \<open>Minimum sizes\<close>

text \<open>
  \<^verbatim>\<open>DockControl.calc_min\<close>. The call of \<^verbatim>\<open>check_features\<close>, which installs
  feature plug-ins, is left out.
\<close>

definition control_calc_min :: "bool \<Rightarrow> dock_control \<Rightarrow> (int \<times> int) \<times> dock_control" where
  "control_calc_min use_size c =
     (let (dx, dy, c) =
            (if has_control c
             then (fst (min_size c), snd (min_size c),
                   if width c < 0
                   then c\<lparr>width := fst (min_size c), height := snd (min_size c)\<rparr>
                   else c)
             else (width c, height c, c))
      in if use_size \<and> width c \<ge> 0 then ((width c, height c), c) else ((dx, dy), c))"

text \<open>
  \<^verbatim>\<open>if self.width < 0: self.width = tdx; self.height = tdy\<close>, the end of
  \<^verbatim>\<open>calc_min\<close> for a region and for a section.
\<close>

definition adopt_min_size :: "int \<times> int \<Rightarrow> 'a dock_item_scheme \<Rightarrow> 'a dock_item_scheme" where
  "adopt_min_size sz g = (if width g < 0 then g\<lparr>width := fst sz, height := snd sz\<rparr> else g)"

text \<open>
  The size that \<^verbatim>\<open>DockRegion.calc_min\<close> computes for a notebook from the sizes of
  the visible items and their tab widths.
\<close>

definition notebook_min_size :: "(int \<times> int) list \<Rightarrow> item list \<Rightarrow> int \<times> int" where
  "notebook_min_size sizes cs =
     (let tdx = foldl max 0 (map fst sizes);
          tdy = foldl max 0 (map snd sizes);
          tab_dx = sum_list (map (\<lambda>i. item_tab_width i - 1) (visible_contents cs));
          nbm = NBMarginLeft + NBMarginRight
      in (nbm + max tdx (tab_dx + 1 - 2 * NBPadding),
          tdy + (TabHeight + NBMarginTop + NBMarginBottom)))"

text \<open>
  The size that \<^verbatim>\<open>DockRegion.calc_min\<close> computes for a drag bar region from the
  size of its first visible item.
\<close>

definition drag_bar_min_size :: "int \<times> int \<Rightarrow> item \<Rightarrow> error + (int \<times> int)" where
  "drag_bar_min_size sz it =
     (case item_locked it of
        Inl e \<Rightarrow> Inl e
      | Inr lk \<Rightarrow>
          Inr (if \<not> lk \<and> item_style it = horizontal then (fst sz, snd sz + DragBarSize)
               else if \<not> lk \<and> item_style it = vertical then (fst sz + DragBarSize, snd sz)
               else sz))"

text \<open>
  The size that \<^verbatim>\<open>DockSection.calc_min\<close> computes from the sizes of the visible
  items.
\<close>

definition section_min_size :: "bool \<Rightarrow> bool \<Rightarrow> (int \<times> int) list \<Rightarrow> int \<times> int" where
  "section_min_size row rz sizes =
     (let n = int (length sizes)
      in if row then
           (let tdx = sum_list (map fst sizes);
                tdy = foldl max 0 (map snd sizes)
            in if rz then (tdx + (n - 1) * SplitterSizeV, tdy)
               else (tdx + (n + 1) * 3, tdy + 6))
         else
           (let tdx = foldl max 0 (map fst sizes);
                tdy = sum_list (map snd sizes)
            in if rz then (tdx, tdy + (n - 1) * SplitterSizeH)
               else (tdx + 6, tdy + (n + 1) * 3)))"

text \<open>
  \<^verbatim>\<open>calc_min\<close> of the three kinds of item. \<open>calc_min_each\<close> is a loop
  \<^verbatim>\<open>for item in contents: dx, dy = item.calc_min( use_size )\<close> over the visible
  contents: it returns the sizes in order and the contents with the items updated in
  place. \<open>calc_min_first\<close> is the call for \<^verbatim>\<open>contents[0]\<close>, the first visible
  item, of the drag bar branch of \<^verbatim>\<open>DockRegion.calc_min\<close>; it returns the size
  and the item, or nothing when no item is visible.
\<close>

fun calc_min :: "bool \<Rightarrow> item \<Rightarrow> error + ((int \<times> int) \<times> item)"
and calc_min_each :: "bool \<Rightarrow> item list \<Rightarrow> error + ((int \<times> int) list \<times> item list)"
and calc_min_first ::
  "bool \<Rightarrow> item list \<Rightarrow> error + (((int \<times> int) \<times> item) option \<times> item list)" where
  "calc_min use_size (Control c) =
     Inr (fst (control_calc_min use_size c), Control (snd (control_calc_min use_size c)))"
| "calc_min use_size (Region r cs) =
     (if fst (get_is_notebook r cs) then
        (case calc_min_each use_size cs of
           Inl e \<Rightarrow> Inl e
         | Inr (sizes, cs') \<Rightarrow>
             Inr (notebook_min_size sizes cs',
                  Region (adopt_min_size (notebook_min_size sizes cs')
                            (snd (get_is_notebook r cs))) cs'))
      else
        (case calc_min_first use_size cs of
           Inl e \<Rightarrow> Inl e
         | Inr (None, cs') \<Rightarrow>
             Inr ((0, 0), Region (adopt_min_size (0, 0) (snd (get_is_notebook r cs))) cs')
         | Inr (Some (sz, it), cs') \<Rightarrow>
             (case drag_bar_min_size sz it of
                Inl e \<Rightarrow> Inl e
              | Inr sz' \<Rightarrow>
                  Inr (sz', Region (adopt_min_size sz' (snd (get_is_notebook r cs))) cs'))))"
| "calc_min use_size (Section s cs) =
     (case calc_min_each use_size cs of
        Inl e \<Rightarrow> Inl e
      | Inr (sizes, cs') \<Rightarrow>
          (case get_resizable s cs' of (rz, s') \<Rightarrow>
             Inr (section_min_size (is_row s) rz sizes,
                  Section (adopt_min_size (section_min_size (is_row s) rz sizes) s') cs')))"
| "calc_min_each use_size [] = Inr ([], [])"
| "calc_min_each use_size (c # cs) =
     (if item_visible c then
        (case calc_min use_size c of
           Inl e \<Rightarrow> Inl e
         | Inr (sz, c') \<Rightarrow>
             (case calc_min_each use_size cs of
                Inl e \<Rightarrow> Inl e
              | Inr (szs, cs') \<Rightarrow> Inr (sz # szs, c' # cs')))
      else
        (case calc_min_each use_size cs of
           Inl e \<Rightarrow> Inl e
         | Inr (szs, cs') \<Rightarrow> Inr (szs, c # cs')))"
| "calc_min_first use_size [] = Inr (None, [])"
| "calc_min_first use_size (c # cs) =
     (if item_visible c then
        (case calc_min use_size c of
           Inl e \<Rightarrow> Inl e
         | Inr (sz, c') \<Rightarrow> Inr (Some (sz, c'), c' # cs))
      else
        (case calc_min_first use_size cs of
           Inl e \<Rightarrow> Inl e
         | Inr (res, cs') \<Rightarrow> Inr (res, c # cs')))"

section \<open>Freshly constructed items\<close>


section \<open>Verified properties\<close>

subsection \<open>Tab label\<close>



subsection \<open>Hit test\<close>

text \<open>
  C8. \<^verbatim>\<open>is_at\<close> is the membership test of the half-open rectangle: the minimum
  edges are inside and the maximum edges are outside. The corner \<open>(x0, y0)\<close> is
  inside exactly when the width and the height are positive, and the point
  \<open>(x0 + w, y0)\<close> is never inside.
\<close>

theorem is_at_half_open:
  "(is_at x y (x0, y0, w, h) = ((x0 \<le> x \<and> x < x0 + w) \<and> (y0 \<le> y \<and> y < y0 + h)))
   \<and> (is_at x0 y0 (x0, y0, w, h) = (0 < w \<and> 0 < h))
   \<and> \<not> is_at (x0 + w) y0 (x0, y0, w, h)"
  by (auto simp: is_at_def)

text \<open>
  The corner of an empty rectangle, such as the bounds \<open>(0, 0, 0, 0)\<close> that an item
  has before its first layout, is not inside it.
\<close>

theorem is_at_empty_bounds_counterexample:
  "\<not> is_at 0 0 (0, 0, 0, 0)"
  by (simp add: is_at_def)

end
